theory Spec2Isabelle
  imports Complex_Main "HOL-Library.Log_Nat"
begin

section \<open>Values of the host language\<close>

text \<open>
  Times are milliseconds since the epoch. A JavaScript number that the handler obtains
  with \<^verbatim>\<open>Number(s)\<close> is kept only as far as the code looks at it: whether it is
  \<^verbatim>\<open>NaN\<close>, an integer (both zeros are \<open>Integral 0\<close>), or something else (a
  fraction or an infinity), which is truthy and equal to no row identifier.
\<close>

type_synonym timestamp = int

datatype js_number = NaN | Integral int | NonIntegral

text \<open>\<^verbatim>\<open>if (n)\<close> on a number: false for \<^verbatim>\<open>NaN\<close> and for zero.\<close>

fun truthy_number :: "js_number \<Rightarrow> bool" where
  "truthy_number NaN = False"
| "truthy_number (Integral i) = (i \<noteq> 0)"
| "truthy_number NonIntegral = True"

text \<open>\<^verbatim>\<open>if (s)\<close> on a string: false for the empty string.\<close>

definition truthy_string :: "string \<Rightarrow> bool" where
  "truthy_string s = (s \<noteq> [])"

datatype error =
    Error string
  | StripeSignatureVerificationError
  | OtherError string

section \<open>Rows of the store\<close>

text \<open>
  Modelled from the spec: the table declarations (\<^verbatim>\<open>@shared/schema\<close>) are missing
  from the sources. The rows carry the fields that section 3 of the specification lists
  for a scheduled payment and a transaction, with the statuses it names.
\<close>

datatype payment_status = Scheduled | Completed | Late | Failed

record cal_date =
  cd_year :: int
  cd_month :: int
  cd_day :: int

record scheduled_payment =
  sp_id :: int
  sp_planId :: int
  sp_userId :: string
  sp_amount :: int
  sp_dueDate :: cal_date
  sp_status :: payment_status
  sp_paidAt :: "timestamp option"

record transaction_row =
  tx_id :: int
  tx_userId :: string
  tx_planId :: js_number
  tx_type :: string
  tx_amount :: int
  tx_externalId :: string
  tx_status :: string
  tx_description :: string
  tx_createdAt :: timestamp

record db =
  scheduledPayments :: "scheduled_payment list"
  transactions :: "transaction_row list"

text \<open>
  The object literals that \<^verbatim>\<open>processWebhook\<close> hands to the store: a partial
  update of a scheduled payment (an absent field is \<open>None\<close>) and the fields of a new
  transaction.
\<close>

record sp_patch =
  patch_status :: "payment_status option"
  patch_paidAt :: "timestamp option"

record insert_transaction =
  it_planId :: js_number
  it_type :: string
  it_amount :: int
  it_externalId :: string
  it_status :: string
  it_description :: string

section \<open>The store as the handler sees it\<close>

text \<open>
  \<^verbatim>\<open>./storage\<close> is imported by the handler and is not among the sources, so the
  handler takes the two operations it calls as a parameter. A call either rejects
  (\<open>Inl\<close>, the store as it was) or resolves with the new store; the handler never looks
  at the resolved value. \<open>createTransaction\<close> is given the time at which it runs.
\<close>

record storage_ops =
  updateScheduledPayment :: "js_number \<Rightarrow> string \<Rightarrow> sp_patch \<Rightarrow> db \<Rightarrow> error + db"
  createTransaction :: "timestamp \<Rightarrow> string \<Rightarrow> insert_transaction \<Rightarrow> db \<Rightarrow> error + db"

section \<open>Processor events and the process environment\<close>

record payment_intent =
  pi_id :: string
  pi_amount :: int
  pi_metadata :: "(string \<rightharpoonup> string) option"

record stripe_event =
  ev_type :: string
  ev_created :: timestamp
  ev_object :: payment_intent

text \<open>
  The request body as it reaches the handler: the raw bytes, or whatever an upstream
  body parser left in their place.
\<close>

datatype payload = Buffer string | ParsedBody

text \<open>
  What the process reads from outside the repository: the two environment variables,
  the processor library's \<^verbatim>\<open>webhooks.constructEvent(payload, signature, secret)\<close>,
  JavaScript's \<^verbatim>\<open>Number\<close> on strings and the conversion of a number inside a
  template literal. The library reads the clock (it refuses a signature header whose
  timestamp is older than its tolerance of 300 seconds), so its model takes the reading of
  the clock as its first argument.
\<close>

record env =
  STRIPE_SECRET_KEY :: "string option"
  STRIPE_WEBHOOK_SECRET :: "string option"
  webhooks_constructEvent :: "timestamp \<Rightarrow> string \<Rightarrow> string \<Rightarrow> string \<Rightarrow> error + stripe_event"
  Number :: "string \<Rightarrow> js_number"
  template_number :: "js_number \<Rightarrow> string"

record stripe_client =
  sc_secretKey :: string
  sc_apiVersion :: string

text \<open>
  The state of the server process: the module-level client of
  \<^verbatim>\<open>stripeClient.ts\<close> (\<^verbatim>\<open>let stripe: Stripe | null = null\<close>) and the store.
\<close>

record server =
  stripe :: "stripe_client option"
  store :: db

section \<open>stripeClient.ts\<close>

definition getStripeClient :: "env \<Rightarrow> server \<Rightarrow> (error + stripe_client) \<times> server" where
  "getStripeClient e s =
     (case stripe s of
        Some c \<Rightarrow> (Inr c, s)
      | None \<Rightarrow>
          (case STRIPE_SECRET_KEY e of
             None \<Rightarrow> (Inl (Error ''Missing STRIPE_SECRET_KEY''), s)
           | Some secretKey \<Rightarrow>
               if \<not> truthy_string secretKey
               then (Inl (Error ''Missing STRIPE_SECRET_KEY''), s)
               else
                 (let c = \<lparr>sc_secretKey = secretKey, sc_apiVersion = ''2025-07-30.basil''\<rparr>
                  in (Inr c, s\<lparr>stripe := Some c\<rparr>))))"

definition getStripeWebhookSecret :: "env \<Rightarrow> error + string" where
  "getStripeWebhookSecret e =
     (case STRIPE_WEBHOOK_SECRET e of
        None \<Rightarrow> Inl (Error ''Missing STRIPE_WEBHOOK_SECRET'')
      | Some secret \<Rightarrow>
          if \<not> truthy_string secret then Inl (Error ''Missing STRIPE_WEBHOOK_SECRET'')
          else Inr secret)"

text \<open>\<open>received\<close> is the reading of the clock when the library checks the signature.\<close>

definition constructStripeEvent ::
  "env \<Rightarrow> timestamp \<Rightarrow> string \<Rightarrow> string \<Rightarrow> server \<Rightarrow> (error + stripe_event) \<times> server" where
  "constructStripeEvent e received bytes signature s =
     (case getStripeWebhookSecret e of
        Inl err \<Rightarrow> (Inl err, s)
      | Inr secret \<Rightarrow>
          (case getStripeClient e s of
             (Inl err, s') \<Rightarrow> (Inl err, s')
           | (Inr client, s') \<Rightarrow>
               (webhooks_constructEvent e received bytes signature secret, s')))"

section \<open>WebhookHandlers.processWebhook\<close>

text \<open>\<^verbatim>\<open>pi.metadata || {}\<close>\<close>

definition metadata_of :: "payment_intent \<Rightarrow> (string \<rightharpoonup> string)" where
  "metadata_of intent = (case pi_metadata intent of None \<Rightarrow> Map.empty | Some m \<Rightarrow> m)"

text \<open>\<^verbatim>\<open>meta.k ? Number(meta.k) : undefined\<close>\<close>

definition number_field :: "env \<Rightarrow> (string \<rightharpoonup> string) \<Rightarrow> string \<Rightarrow> js_number option" where
  "number_field e meta k =
     (case meta k of
        None \<Rightarrow> None
      | Some v \<Rightarrow> if truthy_string v then Some (Number e v) else None)"

text \<open>\<^verbatim>\<open>if (userId)\<close>, \<^verbatim>\<open>if (paymentId)\<close>: undefined is falsy.\<close>

definition present_string :: "string option \<Rightarrow> bool" where
  "present_string v = (case v of None \<Rightarrow> False | Some x \<Rightarrow> truthy_string x)"

definition present_number :: "js_number option \<Rightarrow> bool" where
  "present_number v = (case v of None \<Rightarrow> False | Some n \<Rightarrow> truthy_number n)"

text \<open>The branch for \<^verbatim>\<open>payment_intent.succeeded\<close> (lines 22 to 48).\<close>

definition on_succeeded ::
  "storage_ops \<Rightarrow> env \<Rightarrow> timestamp \<Rightarrow> stripe_event \<Rightarrow> server \<Rightarrow> (error + unit) \<times> server" where
  "on_succeeded st e now event s =
     (let intent = ev_object event;
          meta = metadata_of intent;
          userId = meta ''userId'';
          planId = number_field e meta ''planId'';
          paymentId = number_field e meta ''paymentId''
      in if present_string userId then
           (case (if present_number paymentId
                  then updateScheduledPayment st (the paymentId) (the userId)
                         \<lparr>patch_status = Some Completed, patch_paidAt = Some now\<rparr> (store s)
                  else Inr (store s)) of
              Inl err \<Rightarrow> (Inl err, s)
            | Inr d1 \<Rightarrow>
                if present_number planId then
                  (case createTransaction st now (the userId)
                          \<lparr>it_planId = the planId,
                           it_type = ''payment'',
                           it_amount = pi_amount intent,
                           it_externalId = pi_id intent,
                           it_status = ''completed'',
                           it_description =
                             (if present_number paymentId
                              then ''Payment for scheduled payment #''
                                     @ template_number e (the paymentId)
                              else ''Credit plan payment'')\<rparr> d1 of
                     Inl err \<Rightarrow> (Inl err, s\<lparr>store := d1\<rparr>)
                   | Inr d2 \<Rightarrow> (Inr (), s\<lparr>store := d2\<rparr>))
                else (Inr (), s\<lparr>store := d1\<rparr>))
         else (Inr (), s))"

text \<open>The branch for \<^verbatim>\<open>payment_intent.payment_failed\<close> (lines 52 to 61).\<close>

definition on_payment_failed ::
  "storage_ops \<Rightarrow> env \<Rightarrow> stripe_event \<Rightarrow> server \<Rightarrow> (error + unit) \<times> server" where
  "on_payment_failed st e event s =
     (let intent = ev_object event;
          meta = metadata_of intent;
          userId = meta ''userId'';
          paymentId = number_field e meta ''paymentId''
      in if present_string userId \<and> present_number paymentId then
           (case updateScheduledPayment st (the paymentId) (the userId)
                   \<lparr>patch_status = Some Failed, patch_paidAt = None\<rparr> (store s) of
              Inl err \<Rightarrow> (Inl err, s)
            | Inr d1 \<Rightarrow> (Inr (), s\<lparr>store := d1\<rparr>))
         else (Inr (), s))"

text \<open>
  \<open>received\<close> is the reading of the clock at the verification of the signature and
  \<open>now\<close> the later one of \<^verbatim>\<open>new Date()\<close>. The result is the outcome of the
  promise, \<open>Inl\<close> when it rejects, with the state the process is left in.
\<close>

definition processWebhook ::
  "storage_ops \<Rightarrow> env \<Rightarrow> timestamp \<Rightarrow> timestamp \<Rightarrow> payload \<Rightarrow> string \<Rightarrow> server
     \<Rightarrow> (error + unit) \<times> server" where
  "processWebhook st e received now body signature s =
     (case body of
        ParsedBody \<Rightarrow>
          (Inl (Error (''STRIPE WEBHOOK ERROR: Payload must be a Buffer. '' @
             ''This usually means express.json() parsed the body before reaching this handler.'')), s)
      | Buffer bytes \<Rightarrow>
          (case constructStripeEvent e received bytes signature s of
             (Inl err, s1) \<Rightarrow> (Inl err, s1)
           | (Inr event, s1) \<Rightarrow>
               if ev_type event = ''payment_intent.succeeded'' then on_succeeded st e now event s1
               else if ev_type event = ''payment_intent.payment_failed''
               then on_payment_failed st e event s1
               else (Inr (), s1)))"

text \<open>
  Each delivery is a request of its own: the body, the signature header and the two
  readings of the clock while it runs. A delivery that rejects leaves the process
  running, and the next one starts from the state it left.
\<close>

record delivery =
  d_received :: timestamp
  d_now :: timestamp
  d_body :: payload
  d_signature :: string



section \<open>The persistence gateway\<close>

text \<open>
  Modelled from the spec: the module \<^verbatim>\<open>./storage\<close> (\<^verbatim>\<open>updateScheduledPayment\<close>,
  \<^verbatim>\<open>createTransaction\<close>) is missing from the sources. Section 6 of the specification
  gives the interface \<^verbatim>\<open>updateScheduledPayment(id, ownerId, patch)\<close> and
  \<^verbatim>\<open>createTransaction(ownerId, transaction)\<close>, each scoped by owner id and returning
  the updated or created record or a not-found signal; section 3 makes the ledger
  append-only. The update applies the patch to the row with that identifier when it
  belongs to that owner and does nothing otherwise; the creation appends one row owned by
  that owner. Neither rejects.
\<close>

text \<open>
  Modelled from the spec: how a partial update changes a row; only the status and the
  time of payment can change, a field absent from the patch keeps its value.
\<close>

definition applyPatch :: "sp_patch \<Rightarrow> scheduled_payment \<Rightarrow> scheduled_payment" where
  "applyPatch p r =
     r\<lparr>sp_status := (case patch_status p of None \<Rightarrow> sp_status r | Some v \<Rightarrow> v),
       sp_paidAt := (case patch_paidAt p of None \<Rightarrow> sp_paidAt r | Some t \<Rightarrow> Some t)\<rparr>"

text \<open>
  Modelled from the spec: \<^verbatim>\<open>storage.updateScheduledPayment(id, ownerId, patch)\<close>, missing
  from the sources; scoped by owner, a row of another owner or an unknown identifier is
  left alone.
\<close>

definition storage_updateScheduledPayment ::
  "js_number \<Rightarrow> string \<Rightarrow> sp_patch \<Rightarrow> db \<Rightarrow> error + db" where
  "storage_updateScheduledPayment ident ownerId p d =
     Inr (d\<lparr>scheduledPayments :=
              map (\<lambda>r. if Integral (sp_id r) = ident \<and> sp_userId r = ownerId
                       then applyPatch p r else r)
                  (scheduledPayments d)\<rparr>)"

text \<open>
  Modelled from the spec: \<^verbatim>\<open>storage.createTransaction(ownerId, transaction)\<close>, missing
  from the sources; the ledger is append-only and the new row belongs to the owner.
\<close>

definition storage_createTransaction ::
  "timestamp \<Rightarrow> string \<Rightarrow> insert_transaction \<Rightarrow> db \<Rightarrow> error + db" where
  "storage_createTransaction now ownerId t d =
     Inr (d\<lparr>transactions := transactions d @
              [\<lparr>tx_id = int (length (transactions d)) + 1,
                tx_userId = ownerId,
                tx_planId = it_planId t,
                tx_type = it_type t,
                tx_amount = it_amount t,
                tx_externalId = it_externalId t,
                tx_status = it_status t,
                tx_description = it_description t,
                tx_createdAt = now\<rparr>]\<rparr>)"

text \<open>Modelled from the spec: the \<^verbatim>\<open>storage\<close> object, made of the two operations above.\<close>

definition storage :: storage_ops where
  "storage = \<lparr>updateScheduledPayment = storage_updateScheduledPayment,
              createTransaction = storage_createTransaction\<rparr>"

section \<open>The persistence gateway with its guards\<close>

text \<open>
  Modelled from the spec: the storage layer with the two guards that the specification
  places there, for the properties that hold across deliveries. Section 5 has concurrent
  deliveries serialise at the storage layer through a conditional update on the status,
  and sections 3 and 4.2 make \<open>completed\<close> terminal (a completed-to-completed replay is
  a no-op); section 4.2(7) prevents a second transaction for an external reference by a
  uniqueness constraint on it, and section 7 treats a duplicate as a successful no-op.
  The handler under \<^verbatim>\<open>src/\<close> has neither guard of its own.
\<close>




section \<open>Creating a plan\<close>




subsection \<open>Division in double precision\<close>

text \<open>
  \<^verbatim>\<open>a / b\<close> divides two numbers in double precision: the result is the quotient
  rounded to 53 significant bits, to the nearest and to the even significand on a tie. For
  positive integers \<open>a\<close> and \<open>b\<close> the binade of the quotient is the \<open>e\<close> with
  \<open>2 ^ e \<le> a / b < 2 ^ (e + 1)\<close>, the result is \<open>m * 2 ^ p\<close> with \<open>p = e - 52\<close>
  and \<open>m\<close> the rounded quotient of \<open>a\<close> by \<open>b * 2 ^ p\<close>. No quotient of two
  integers that are numbers of the host language is small enough to be subnormal; a
  result of \<open>2 ^ 1024\<close> or more is an infinity.
\<close>

definition binade_quotient :: "int \<Rightarrow> int \<Rightarrow> int" where
  "binade_quotient a b =
     (let e0 = bitlen a - bitlen b
      in if (if 0 \<le> e0 then b * 2 ^ nat e0 \<le> a else b \<le> a * 2 ^ nat (- e0))
         then e0 else e0 - 1)"








subsection \<open>The schedule\<close>

text \<open>
  Modelled from the spec: the server side of \<^verbatim>\<open>POST /api/credit-plans\<close>, which
  turns the request into the rows of the schedule, is missing from the sources.
  Section 4.1 of the specification: the monthly installment is the ceiling of total over
  term, the last installment is reduced by the surplus (50000 over 12 months is 4167 for
  eleven months and 4163 for the last), the due dates are the start date plus
  \<open>k\<close> calendar months for \<open>k\<close> from 0 to term - 1, and a non-positive amount or a
  term outside 1 to 60 is rejected.
\<close>









section \<open>Concrete inputs\<close>

text \<open>
  One configured process, a library that accepts one signature header (stamped at time
  1000) under one secret until 300 seconds after the stamp and knows five bodies, and a
  store with a row of user \<open>u1\<close> and a row of user \<open>u2\<close>.
\<close>

definition sample_intent :: "string \<Rightarrow> payment_intent" where
  "sample_intent paymentId =
     \<lparr>pi_id = ''pi_1'', pi_amount = 4167,
      pi_metadata = Some [''userId'' \<mapsto> ''u1'', ''planId'' \<mapsto> ''3'', ''paymentId'' \<mapsto> paymentId]\<rparr>"

definition sample_succeeded :: stripe_event where
  "sample_succeeded =
     \<lparr>ev_type = ''payment_intent.succeeded'', ev_created = 1000, ev_object = sample_intent ''7''\<rparr>"

definition sample_failed :: stripe_event where
  "sample_failed =
     \<lparr>ev_type = ''payment_intent.payment_failed'', ev_created = 1500,
      ev_object = sample_intent ''7''\<rparr>"

definition sample_foreign :: stripe_event where
  "sample_foreign =
     \<lparr>ev_type = ''payment_intent.succeeded'', ev_created = 1700, ev_object = sample_intent ''8''\<rparr>"

definition sample_plan_only :: stripe_event where
  "sample_plan_only =
     \<lparr>ev_type = ''payment_intent.succeeded'', ev_created = 1800,
      ev_object = \<lparr>pi_id = ''pi_2'', pi_amount = 2500,
                    pi_metadata = Some [''userId'' \<mapsto> ''u1'', ''planId'' \<mapsto> ''3'']\<rparr>\<rparr>"

definition sample_other :: stripe_event where
  "sample_other =
     \<lparr>ev_type = ''charge.refunded'', ev_created = 1900, ev_object = sample_intent ''7''\<rparr>"

definition sample_constructEvent ::
  "timestamp \<Rightarrow> string \<Rightarrow> string \<Rightarrow> string \<Rightarrow> error + stripe_event" where
  "sample_constructEvent received bytes signature secret =
     (if signature \<noteq> ''v1=good'' \<or> secret \<noteq> ''whsec_1'' \<or> 1000 + 300000 < received
      then Inl StripeSignatureVerificationError
      else if bytes = ''S'' then Inr sample_succeeded
      else if bytes = ''F'' then Inr sample_failed
      else if bytes = ''X'' then Inr sample_foreign
      else if bytes = ''P'' then Inr sample_plan_only
      else if bytes = ''O'' then Inr sample_other
      else Inl (OtherError ''SyntaxError''))"

definition sample_Number :: "string \<Rightarrow> js_number" where
  "sample_Number v =
     (if v = ''3'' then Integral 3 else if v = ''7'' then Integral 7
      else if v = ''8'' then Integral 8 else NaN)"

definition sample_template :: "js_number \<Rightarrow> string" where
  "sample_template n =
     (if n = Integral 3 then ''3'' else if n = Integral 7 then ''7''
      else if n = Integral 8 then ''8'' else ''NaN'')"

definition sample_env :: env where
  "sample_env =
     \<lparr>STRIPE_SECRET_KEY = Some ''sk_1'',
      STRIPE_WEBHOOK_SECRET = Some ''whsec_1'',
      webhooks_constructEvent = sample_constructEvent,
      Number = sample_Number,
      template_number = sample_template\<rparr>"

definition sample_row :: scheduled_payment where
  "sample_row =
     \<lparr>sp_id = 7, sp_planId = 3, sp_userId = ''u1'', sp_amount = 4167,
      sp_dueDate = \<lparr>cd_year = 2026, cd_month = 1, cd_day = 15\<rparr>,
      sp_status = Scheduled, sp_paidAt = None\<rparr>"

definition foreign_row :: scheduled_payment where
  "foreign_row =
     \<lparr>sp_id = 8, sp_planId = 4, sp_userId = ''u2'', sp_amount = 900,
      sp_dueDate = \<lparr>cd_year = 2026, cd_month = 2, cd_day = 1\<rparr>,
      sp_status = Scheduled, sp_paidAt = None\<rparr>"

definition sample_server :: server where
  "sample_server =
     \<lparr>stripe = None,
      store = \<lparr>scheduledPayments = [sample_row, foreign_row], transactions = []\<rparr>\<rparr>"

definition sample_delivery :: "timestamp \<Rightarrow> string \<Rightarrow> delivery" where
  "sample_delivery t bytes =
     \<lparr>d_received = t - 10, d_now = t, d_body = Buffer bytes, d_signature = ''v1=good''\<rparr>"




section \<open>Unfolding the model\<close>

lemmas sample_defs = sample_intent_def sample_succeeded_def sample_failed_def sample_foreign_def
  sample_plan_only_def sample_other_def sample_constructEvent_def sample_Number_def
  sample_template_def sample_env_def sample_row_def foreign_row_def sample_server_def
  sample_delivery_def

lemmas handler_defs = processWebhook_def constructStripeEvent_def getStripeWebhookSecret_def
  getStripeClient_def on_succeeded_def on_payment_failed_def metadata_of_def number_field_def
  present_string_def present_number_def truthy_string_def

lemmas storage_defs = storage_def storage_updateScheduledPayment_def storage_createTransaction_def
  applyPatch_def


section \<open>Verification of the event\<close>

text \<open>Verifying an event never touches the store.\<close>

lemma constructStripeEvent_store:
  "constructStripeEvent e received bytes sg s = (r, s1) \<Longrightarrow> store s1 = store s"
  by (auto simp: constructStripeEvent_def getStripeClient_def Let_def
           split: sum.splits option.splits if_splits prod.splits)

text \<open>
  C3. If the payload is not a raw byte buffer, or verifying the signature against the
  server-held webhook secret fails, \<open>processWebhook\<close> raises an error and writes nothing
  to the store: no scheduled payment is updated and no transaction is created, whatever
  the store's operations are.
\<close>

theorem processWebhook_rejects_unverified:
  assumes "body = ParsedBody \<or>
           (\<exists>bytes err. body = Buffer bytes
              \<and> fst (constructStripeEvent e received bytes signature s) = Inl err)"
  shows "(\<exists>err. fst (processWebhook st e received now body signature s) = Inl err)
         \<and> store (snd (processWebhook st e received now body signature s)) = store s"
  using assms
proof
  assume "body = ParsedBody"
  then show ?thesis by (simp add: processWebhook_def)
next
  assume "\<exists>bytes err. body = Buffer bytes
            \<and> fst (constructStripeEvent e received bytes signature s) = Inl err"
  then obtain bytes err where b: "body = Buffer bytes"
    and f: "fst (constructStripeEvent e received bytes signature s) = Inl err" by blast
  obtain r s1 where c: "constructStripeEvent e received bytes signature s = (r, s1)"
    by (cases "constructStripeEvent e received bytes signature s")
  with f have r: "r = Inl err" by simp
  from c have "store s1 = store s" by (rule constructStripeEvent_store)
  with b c r show ?thesis by (simp add: processWebhook_def)
qed

theorem processWebhook_rejects_unverified_witness:
  "fst (constructStripeEvent sample_env 1990 ''S'' ''v1=bad'' sample_server)
     = Inl StripeSignatureVerificationError
   \<and> fst (processWebhook storage sample_env 1990 2000 (Buffer ''S'') ''v1=bad'' sample_server)
       = Inl StripeSignatureVerificationError
   \<and> store (snd (processWebhook storage sample_env 1990 2000 (Buffer ''S'') ''v1=bad'' sample_server))
       = store sample_server
   \<and> store (snd (processWebhook storage sample_env 1990 2000 ParsedBody ''v1=good'' sample_server))
       = store sample_server"
proof -
  have v: "fst (constructStripeEvent sample_env 1990 ''S'' ''v1=bad'' sample_server)
           = Inl StripeSignatureVerificationError"
    by (simp add: handler_defs sample_defs Let_def)
  have p: "fst (processWebhook storage sample_env 1990 2000 (Buffer ''S'') ''v1=bad'' sample_server)
       = Inl StripeSignatureVerificationError"
    by (simp add: handler_defs sample_defs Let_def)
  from v have h: "Buffer ''S'' = ParsedBody \<or>
     (\<exists>bytes err. Buffer ''S'' = Buffer bytes
        \<and> fst (constructStripeEvent sample_env 1990 bytes ''v1=bad'' sample_server) = Inl err)"
    by blast
  show ?thesis
    using v p processWebhook_rejects_unverified [OF h, where st = storage and now = 2000]
      processWebhook_rejects_unverified
        [where body = ParsedBody and e = sample_env and received = 1990
           and signature = "''v1=good''" and s = sample_server and st = storage and now = 2000]
    by simp
qed

text \<open>
  C8. A verified event whose type is neither payment-succeeded nor payment-failed, and a
  verified event of either type whose metadata has no user identifier, is acknowledged:
  \<open>processWebhook\<close> returns without an error and writes nothing to the store, whatever
  the store's operations are.
\<close>

theorem processWebhook_acknowledges_inapplicable:
  assumes "constructStripeEvent e received bytes signature s = (Inr event, s1)"
    and "(ev_type event \<noteq> ''payment_intent.succeeded''
          \<and> ev_type event \<noteq> ''payment_intent.payment_failed'')
         \<or> \<not> present_string (metadata_of (ev_object event) ''userId'')"
  shows "processWebhook st e received now (Buffer bytes) signature s = (Inr (), s1) \<and> store s1 = store s"
proof -
  have "store s1 = store s" using assms(1) by (rule constructStripeEvent_store)
  moreover have "processWebhook st e received now (Buffer bytes) signature s = (Inr (), s1)"
    using assms by (auto simp: processWebhook_def on_succeeded_def on_payment_failed_def Let_def)
  ultimately show ?thesis by simp
qed

theorem processWebhook_acknowledges_inapplicable_witness:
  "fst (processWebhook storage sample_env 1990 2000 (Buffer ''O'') ''v1=good'' sample_server) = Inr ()
   \<and> store (snd (processWebhook storage sample_env 1990 2000 (Buffer ''O'') ''v1=good'' sample_server))
       = store sample_server"
proof -
  have c: "constructStripeEvent sample_env 1990 ''O'' ''v1=good'' sample_server
           = (Inr sample_other, sample_server\<lparr>stripe :=
                Some \<lparr>sc_secretKey = ''sk_1'', sc_apiVersion = ''2025-07-30.basil''\<rparr>\<rparr>)"
    by (simp add: handler_defs sample_defs Let_def)
  have t: "(ev_type sample_other \<noteq> ''payment_intent.succeeded''
          \<and> ev_type sample_other \<noteq> ''payment_intent.payment_failed'')
         \<or> \<not> present_string (metadata_of (ev_object sample_other) ''userId'')"
    by (simp add: sample_other_def)
  show ?thesis
    using processWebhook_acknowledges_inapplicable [OF c t, where st = storage and now = 2000] by simp
qed

section \<open>The two branches on the modelled store\<close>

text \<open>
  With the persistence gateway of the specification neither branch rejects, and the rows
  and the ledger after a branch are these.
\<close>

lemma on_succeeded_ok: "fst (on_succeeded storage e now event s) = Inr ()"
  by (simp add: on_succeeded_def storage_defs Let_def)

lemma on_succeeded_rows:
  "scheduledPayments (store (snd (on_succeeded storage e now event s))) =
     map (\<lambda>r. if present_string (metadata_of (ev_object event) ''userId'')
                 \<and> present_number (number_field e (metadata_of (ev_object event)) ''paymentId'')
                 \<and> Some (Integral (sp_id r)) = number_field e (metadata_of (ev_object event)) ''paymentId''
                 \<and> Some (sp_userId r) = metadata_of (ev_object event) ''userId''
              then r\<lparr>sp_status := Completed, sp_paidAt := Some now\<rparr> else r)
         (scheduledPayments (store s))"
  by (auto simp: on_succeeded_def storage_defs Let_def present_string_def present_number_def
           split: option.splits intro!: map_idI)

lemma on_succeeded_transactions:
  "transactions (store (snd (on_succeeded storage e now event s))) =
     (if present_string (metadata_of (ev_object event) ''userId'')
         \<and> present_number (number_field e (metadata_of (ev_object event)) ''planId'')
      then transactions (store s) @
        [\<lparr>tx_id = int (length (transactions (store s))) + 1,
          tx_userId = the (metadata_of (ev_object event) ''userId''),
          tx_planId = the (number_field e (metadata_of (ev_object event)) ''planId''),
          tx_type = ''payment'',
          tx_amount = pi_amount (ev_object event),
          tx_externalId = pi_id (ev_object event),
          tx_status = ''completed'',
          tx_description =
            (if present_number (number_field e (metadata_of (ev_object event)) ''paymentId'')
             then ''Payment for scheduled payment #''
                    @ template_number e (the (number_field e (metadata_of (ev_object event)) ''paymentId''))
             else ''Credit plan payment''),
          tx_createdAt = now\<rparr>]
      else transactions (store s))"
  by (simp add: on_succeeded_def storage_defs Let_def)

lemma on_payment_failed_ok: "fst (on_payment_failed storage e event s) = Inr ()"
  by (simp add: on_payment_failed_def storage_defs Let_def)

lemma on_payment_failed_rows:
  "scheduledPayments (store (snd (on_payment_failed storage e event s))) =
     map (\<lambda>r. if present_string (metadata_of (ev_object event) ''userId'')
                 \<and> present_number (number_field e (metadata_of (ev_object event)) ''paymentId'')
                 \<and> Some (Integral (sp_id r)) = number_field e (metadata_of (ev_object event)) ''paymentId''
                 \<and> Some (sp_userId r) = metadata_of (ev_object event) ''userId''
              then r\<lparr>sp_status := Failed\<rparr> else r)
         (scheduledPayments (store s))"
  by (auto simp: on_payment_failed_def storage_defs Let_def present_string_def present_number_def
           split: option.splits intro!: map_idI)

lemma on_payment_failed_transactions:
  "transactions (store (snd (on_payment_failed storage e event s))) = transactions (store s)"
  by (simp add: on_payment_failed_def storage_defs Let_def)

lemma processWebhook_verified:
  "constructStripeEvent e received bytes sg s = (Inr event, s1) \<Longrightarrow>
   processWebhook st e received now (Buffer bytes) sg s =
     (if ev_type event = ''payment_intent.succeeded'' then on_succeeded st e now event s1
      else if ev_type event = ''payment_intent.payment_failed'' then on_payment_failed st e event s1
      else (Inr (), s1))"
  by (simp add: processWebhook_def)


text \<open>
  C9. For a verified payment-failed event whose metadata carries a user identifier and a
  scheduled-payment identifier, \<open>processWebhook\<close> sets the status of the row with that
  identifier to \<open>Failed\<close> when the row belongs to that user, leaves every other row as
  it was, and creates no transaction.
\<close>

theorem processWebhook_failed_marks_row:
  assumes v: "constructStripeEvent e received bytes signature s = (Inr event, s1)"
    and t: "ev_type event = ''payment_intent.payment_failed''"
    and u: "metadata_of (ev_object event) ''userId'' = Some userId" "userId \<noteq> []"
    and p: "number_field e (metadata_of (ev_object event)) ''paymentId'' = Some paymentId"
           "truthy_number paymentId"
  shows "fst (processWebhook storage e received now (Buffer bytes) signature s) = Inr ()
     \<and> scheduledPayments (store (snd (processWebhook storage e received now (Buffer bytes) signature s))) =
         map (\<lambda>r. if Integral (sp_id r) = paymentId \<and> sp_userId r = userId
                  then r\<lparr>sp_status := Failed\<rparr> else r)
             (scheduledPayments (store s))
     \<and> transactions (store (snd (processWebhook storage e received now (Buffer bytes) signature s))) =
         transactions (store s)"
proof -
  have st: "store s1 = store s" using v by (rule constructStripeEvent_store)
  have pw: "processWebhook storage e received now (Buffer bytes) signature s
              = on_payment_failed storage e event s1"
    using v t by (simp add: processWebhook_verified)
  have rows: "scheduledPayments (store (snd (on_payment_failed storage e event s1))) =
         map (\<lambda>r. if Integral (sp_id r) = paymentId \<and> sp_userId r = userId
                  then r\<lparr>sp_status := Failed\<rparr> else r)
             (scheduledPayments (store s1))"
    using u p by (simp add: on_payment_failed_rows present_string_def present_number_def
                            truthy_string_def)
  show ?thesis
    using pw rows st by (simp add: on_payment_failed_ok on_payment_failed_transactions)
qed

text \<open>The payment-failed event of user \<open>u1\<close> for row 7, on the sample store.\<close>

theorem processWebhook_failed_marks_row_witness:
  "map sp_status (scheduledPayments (store (snd
      (processWebhook storage sample_env 1990 2000 (Buffer ''F'') ''v1=good'' sample_server))))
     = [Failed, Scheduled]
   \<and> transactions (store (snd
      (processWebhook storage sample_env 1990 2000 (Buffer ''F'') ''v1=good'' sample_server))) = []"
proof -
  have c: "constructStripeEvent sample_env 1990 ''F'' ''v1=good'' sample_server
           = (Inr sample_failed, sample_server\<lparr>stripe :=
                Some \<lparr>sc_secretKey = ''sk_1'', sc_apiVersion = ''2025-07-30.basil''\<rparr>\<rparr>)"
    by (simp add: handler_defs sample_defs Let_def)
  have t: "ev_type sample_failed = ''payment_intent.payment_failed''"
    by (simp add: sample_failed_def)
  have u: "metadata_of (ev_object sample_failed) ''userId'' = Some ''u1''"
    by (simp add: sample_defs metadata_of_def)
  have p: "number_field sample_env (metadata_of (ev_object sample_failed)) ''paymentId''
             = Some (Integral 7)"
    by (simp add: sample_defs metadata_of_def number_field_def truthy_string_def)
  show ?thesis
    using processWebhook_failed_marks_row [OF c t u _ p, where now = 2000]
    by (simp add: sample_server_def sample_row_def foreign_row_def)
qed

text \<open>
  C6, as the code has it. For a verified payment-succeeded event whose metadata carries a
  user identifier and a scheduled-payment identifier, \<open>processWebhook\<close> sets the row
  with that identifier, when it belongs to that user, to \<open>Completed\<close> and sets its
  \<open>paidAt\<close> to the time at which the handler runs (\<^verbatim>\<open>new Date()\<close>); the time
  carried by the event is not read.
\<close>

theorem processWebhook_succeeded_marks_row:
  assumes v: "constructStripeEvent e received bytes signature s = (Inr event, s1)"
    and t: "ev_type event = ''payment_intent.succeeded''"
    and u: "metadata_of (ev_object event) ''userId'' = Some userId" "userId \<noteq> []"
    and p: "number_field e (metadata_of (ev_object event)) ''paymentId'' = Some paymentId"
           "truthy_number paymentId"
  shows "fst (processWebhook storage e received now (Buffer bytes) signature s) = Inr ()
     \<and> scheduledPayments (store (snd (processWebhook storage e received now (Buffer bytes) signature s))) =
         map (\<lambda>r. if Integral (sp_id r) = paymentId \<and> sp_userId r = userId
                  then r\<lparr>sp_status := Completed, sp_paidAt := Some now\<rparr> else r)
             (scheduledPayments (store s))"
proof -
  have st: "store s1 = store s" using v by (rule constructStripeEvent_store)
  have pw: "processWebhook storage e received now (Buffer bytes) signature s
              = on_succeeded storage e now event s1"
    using v t by (simp add: processWebhook_verified)
  have rows: "scheduledPayments (store (snd (on_succeeded storage e now event s1))) =
         map (\<lambda>r. if Integral (sp_id r) = paymentId \<and> sp_userId r = userId
                  then r\<lparr>sp_status := Completed, sp_paidAt := Some now\<rparr> else r)
             (scheduledPayments (store s1))"
    using u p by (simp add: on_succeeded_rows present_string_def present_number_def
                            truthy_string_def)
  show ?thesis
    using pw rows st by (simp add: on_succeeded_ok)
qed

text \<open>The payment-succeeded event of user \<open>u1\<close> for row 7, processed at time 2000.\<close>

theorem processWebhook_succeeded_marks_row_witness:
  "scheduledPayments (store (snd
      (processWebhook storage sample_env 1990 2000 (Buffer ''S'') ''v1=good'' sample_server)))
     = [sample_row\<lparr>sp_status := Completed, sp_paidAt := Some 2000\<rparr>, foreign_row]"
proof -
  have c: "constructStripeEvent sample_env 1990 ''S'' ''v1=good'' sample_server
           = (Inr sample_succeeded, sample_server\<lparr>stripe :=
                Some \<lparr>sc_secretKey = ''sk_1'', sc_apiVersion = ''2025-07-30.basil''\<rparr>\<rparr>)"
    by (simp add: handler_defs sample_defs Let_def)
  have t: "ev_type sample_succeeded = ''payment_intent.succeeded''"
    by (simp add: sample_succeeded_def)
  have u: "metadata_of (ev_object sample_succeeded) ''userId'' = Some ''u1''"
    by (simp add: sample_defs metadata_of_def)
  have p: "number_field sample_env (metadata_of (ev_object sample_succeeded)) ''paymentId''
             = Some (Integral 7)"
    by (simp add: sample_defs metadata_of_def number_field_def truthy_string_def)
  show ?thesis
    using processWebhook_succeeded_marks_row [OF c t u _ p, where now = 2000]
    by (simp add: sample_server_def sample_row_def foreign_row_def)
qed

text \<open>
  C6, as stated, fails: the event below was created at time 1000 and is processed at time
  2000; the row is completed with \<open>paidAt\<close> 2000, not the event's time.
\<close>

theorem processWebhook_paidAt_counterexample:
  "fst (constructStripeEvent sample_env 1990 ''S'' ''v1=good'' sample_server) = Inr sample_succeeded
   \<and> sp_status (hd (scheduledPayments (store (snd
        (processWebhook storage sample_env 1990 2000 (Buffer ''S'') ''v1=good'' sample_server)))))
       = Completed
   \<and> sp_paidAt (hd (scheduledPayments (store (snd
        (processWebhook storage sample_env 1990 2000 (Buffer ''S'') ''v1=good'' sample_server)))))
       = Some 2000
   \<and> sp_paidAt (hd (scheduledPayments (store (snd
        (processWebhook storage sample_env 1990 2000 (Buffer ''S'') ''v1=good'' sample_server)))))
       \<noteq> Some (ev_created sample_succeeded)"
  by (simp add: handler_defs storage_defs sample_defs Let_def)


text \<open>
  C10. For a verified payment-succeeded event whose metadata carries a user identifier
  and a plan identifier, \<open>processWebhook\<close> appends one transaction of type
  \<open>payment\<close> with status \<open>completed\<close>, the amount of the payment intent and the
  payment intent's identifier as external reference; when the metadata carries no
  scheduled-payment identifier it does so without updating any scheduled payment.
\<close>

theorem processWebhook_succeeded_appends_transaction:
  assumes v: "constructStripeEvent e received bytes signature s = (Inr event, s1)"
    and t: "ev_type event = ''payment_intent.succeeded''"
    and u: "metadata_of (ev_object event) ''userId'' = Some userId" "userId \<noteq> []"
    and p: "number_field e (metadata_of (ev_object event)) ''planId'' = Some planId"
           "truthy_number planId"
  shows "fst (processWebhook storage e received now (Buffer bytes) signature s) = Inr ()
     \<and> (\<exists>row. transactions (store (snd (processWebhook storage e received now (Buffer bytes) signature s)))
                 = transactions (store s) @ [row]
           \<and> tx_userId row = userId \<and> tx_planId row = planId
           \<and> tx_type row = ''payment'' \<and> tx_status row = ''completed''
           \<and> tx_amount row = pi_amount (ev_object event)
           \<and> tx_externalId row = pi_id (ev_object event))
     \<and> (\<not> present_number (number_field e (metadata_of (ev_object event)) ''paymentId'')
          \<longrightarrow> scheduledPayments (store (snd (processWebhook storage e received now (Buffer bytes) signature s)))
                = scheduledPayments (store s))"
proof -
  have st: "store s1 = store s" using v by (rule constructStripeEvent_store)
  have pw: "processWebhook storage e received now (Buffer bytes) signature s
              = on_succeeded storage e now event s1"
    using v t by (simp add: processWebhook_verified)
  have tx: "\<exists>row. transactions (store (snd (on_succeeded storage e now event s1)))
                 = transactions (store s1) @ [row]
           \<and> tx_userId row = userId \<and> tx_planId row = planId
           \<and> tx_type row = ''payment'' \<and> tx_status row = ''completed''
           \<and> tx_amount row = pi_amount (ev_object event)
           \<and> tx_externalId row = pi_id (ev_object event)"
    using u p by (simp add: on_succeeded_transactions present_string_def present_number_def
                            truthy_string_def)
  have rows: "\<not> present_number (number_field e (metadata_of (ev_object event)) ''paymentId'')
          \<Longrightarrow> scheduledPayments (store (snd (on_succeeded storage e now event s1)))
                = scheduledPayments (store s1)"
    by (simp add: on_succeeded_rows)
  show ?thesis
    using pw tx rows st by (simp add: on_succeeded_ok)
qed

text \<open>An event with a user and a plan identifier and no scheduled-payment identifier.\<close>

theorem processWebhook_succeeded_appends_transaction_witness:
  "(\<exists>row. transactions (store (snd
       (processWebhook storage sample_env 1990 2000 (Buffer ''P'') ''v1=good'' sample_server))) = [row]
       \<and> tx_userId row = ''u1'' \<and> tx_planId row = Integral 3
       \<and> tx_type row = ''payment'' \<and> tx_status row = ''completed''
       \<and> tx_amount row = 2500 \<and> tx_externalId row = ''pi_2'')
   \<and> scheduledPayments (store (snd
       (processWebhook storage sample_env 1990 2000 (Buffer ''P'') ''v1=good'' sample_server)))
      = [sample_row, foreign_row]"
proof -
  have c: "constructStripeEvent sample_env 1990 ''P'' ''v1=good'' sample_server
           = (Inr sample_plan_only, sample_server\<lparr>stripe :=
                Some \<lparr>sc_secretKey = ''sk_1'', sc_apiVersion = ''2025-07-30.basil''\<rparr>\<rparr>)"
    by (simp add: handler_defs sample_defs Let_def)
  have t: "ev_type sample_plan_only = ''payment_intent.succeeded''"
    by (simp add: sample_plan_only_def)
  have u: "metadata_of (ev_object sample_plan_only) ''userId'' = Some ''u1''"
    by (simp add: sample_defs metadata_of_def)
  have p: "number_field sample_env (metadata_of (ev_object sample_plan_only)) ''planId''
             = Some (Integral 3)"
    by (simp add: sample_defs metadata_of_def number_field_def truthy_string_def)
  have n: "\<not> present_number
             (number_field sample_env (metadata_of (ev_object sample_plan_only)) ''paymentId'')"
    by (simp add: sample_defs metadata_of_def number_field_def present_number_def)
  have o: "pi_amount (ev_object sample_plan_only) = 2500"
          "pi_id (ev_object sample_plan_only) = ''pi_2''"
    by (simp_all add: sample_plan_only_def)
  show ?thesis
    using processWebhook_succeeded_appends_transaction [OF c t u _ p, where now = 2000] n o
    by (simp add: sample_server_def)
qed

text \<open>
  C7. Processing a verified event writes nothing to a scheduled payment whose owner is not
  the user identifier in the event's metadata: the update is scoped by that identifier,
  so the row of another user is the same after the event as before, whatever identifier
  the event names.
\<close>

theorem processWebhook_owner_scoped:
  assumes v: "constructStripeEvent e received bytes signature s = (Inr event, s1)"
    and i: "i < length (scheduledPayments (store s))"
    and o: "metadata_of (ev_object event) ''userId''
              \<noteq> Some (sp_userId (scheduledPayments (store s) ! i))"
  shows "length (scheduledPayments (store (snd (processWebhook storage e received now (Buffer bytes) signature s))))
           = length (scheduledPayments (store s))
     \<and> scheduledPayments (store (snd (processWebhook storage e received now (Buffer bytes) signature s))) ! i
           = scheduledPayments (store s) ! i"
proof -
  have st: "store s1 = store s" using v by (rule constructStripeEvent_store)
  have pw: "processWebhook storage e received now (Buffer bytes) signature s =
     (if ev_type event = ''payment_intent.succeeded'' then on_succeeded storage e now event s1
      else if ev_type event = ''payment_intent.payment_failed''
      then on_payment_failed storage e event s1
      else (Inr (), s1))"
    using v by (rule processWebhook_verified)
  from i o st show ?thesis
    unfolding pw by (auto simp: on_succeeded_rows on_payment_failed_rows)
qed

text \<open>An event of user \<open>u1\<close> that names row 8, which belongs to user \<open>u2\<close>.\<close>

theorem processWebhook_owner_scoped_witness:
  "scheduledPayments (store (snd
      (processWebhook storage sample_env 1990 2000 (Buffer ''X'') ''v1=good'' sample_server))) ! 1
     = foreign_row"
proof -
  have c: "constructStripeEvent sample_env 1990 ''X'' ''v1=good'' sample_server
           = (Inr sample_foreign, sample_server\<lparr>stripe :=
                Some \<lparr>sc_secretKey = ''sk_1'', sc_apiVersion = ''2025-07-30.basil''\<rparr>\<rparr>)"
    by (simp add: handler_defs sample_defs Let_def)
  have i: "1 < length (scheduledPayments (store sample_server))"
    by (simp add: sample_server_def)
  have o: "metadata_of (ev_object sample_foreign) ''userId''
              \<noteq> Some (sp_userId (scheduledPayments (store sample_server) ! 1))"
    by (simp add: sample_defs metadata_of_def)
  show ?thesis
    using processWebhook_owner_scoped [OF c i o, where now = 2000]
    by (simp add: sample_server_def)
qed


section \<open>One delivery after another\<close>














section \<open>The schedule of a plan\<close>

subsection \<open>The installment in double precision\<close>

text \<open>
  The binade brackets the quotient: \<open>2 ^ e \<le> a / b < 2 ^ (e + 1)\<close>, written without
  fractions.
\<close>

lemma two_power_nat_add:
  "0 \<le> x \<Longrightarrow> 0 \<le> y \<Longrightarrow> (2::int) ^ nat x * 2 ^ nat y = 2 ^ nat (x + y)"
  by (simp add: nat_add_distrib power_add)

lemma binade_quotient_spec:
  assumes a: "0 < a" and b: "0 < b"
  defines "e \<equiv> binade_quotient a b"
  shows "(if 0 \<le> e then b * 2 ^ nat e \<le> a else b \<le> a * 2 ^ nat (- e))
       \<and> (if 0 \<le> e + 1 then a < b * 2 ^ nat (e + 1) else a * 2 ^ nat (- e - 1) < b)"
proof -
  define la lb e0 where "la = bitlen a" and "lb = bitlen b" and "e0 = la - lb"
  have A: "2 ^ nat (la - 1) \<le> a" "a < 2 ^ nat la"
    using bitlen_bounds [OF a] unfolding la_def by simp_all
  have B: "2 ^ nat (lb - 1) \<le> b" "b < 2 ^ nat lb"
    using bitlen_bounds [OF b] unfolding lb_def by simp_all
  have la: "1 \<le> la" using a unfolding la_def by (simp add: bitlen_ge_iff_power)
  have lb: "1 \<le> lb" using b unfolding lb_def by (simp add: bitlen_ge_iff_power)
  let ?test = "if 0 \<le> e0 then b * 2 ^ nat e0 \<le> a else b \<le> a * 2 ^ nat (- e0)"
  have e: "e = (if ?test then e0 else e0 - 1)"
    unfolding e_def binade_quotient_def Let_def e0_def la_def lb_def by simp
  have upper0: "if 0 \<le> e0 + 1 then a < b * 2 ^ nat (e0 + 1) else a * 2 ^ nat (- e0 - 1) < b"
  proof (cases "0 \<le> e0 + 1")
    case True
    have "(2::int) ^ nat (lb - 1) * 2 ^ nat (e0 + 1) = 2 ^ nat la"
      using lb True two_power_nat_add [of "lb - 1" "e0 + 1"] by (simp add: e0_def)
    moreover have "2 ^ nat (lb - 1) * 2 ^ nat (e0 + 1) \<le> b * (2::int) ^ nat (e0 + 1)"
      using B(1) by (intro mult_right_mono) simp_all
    ultimately show ?thesis using A(2) True by simp
  next
    case False
    then have n: "0 \<le> - e0 - 1" by simp
    have eq: "(2::int) ^ nat la * 2 ^ nat (- e0 - 1) = 2 ^ nat (lb - 1)"
      using la n two_power_nat_add [of la "- e0 - 1"] by (simp add: e0_def)
    have "a * 2 ^ nat (- e0 - 1) < 2 ^ nat la * (2::int) ^ nat (- e0 - 1)"
      using A(2) by (intro mult_strict_right_mono) simp_all
    with eq B(1) show ?thesis using False by simp
  qed
  have lower1: "if 0 \<le> e0 - 1 then b * 2 ^ nat (e0 - 1) \<le> a else b \<le> a * 2 ^ nat (1 - e0)"
  proof (cases "0 \<le> e0 - 1")
    case True
    have eq: "(2::int) ^ nat lb * 2 ^ nat (e0 - 1) = 2 ^ nat (la - 1)"
      using lb True two_power_nat_add [of lb "e0 - 1"] by (simp add: e0_def)
    have "b * 2 ^ nat (e0 - 1) < 2 ^ nat lb * (2::int) ^ nat (e0 - 1)"
      using B(2) by (intro mult_strict_right_mono) simp_all
    with eq A(1) show ?thesis using True by simp
  next
    case False
    then have n: "0 \<le> 1 - e0" by simp
    have eq: "(2::int) ^ nat (la - 1) * 2 ^ nat (1 - e0) = 2 ^ nat lb"
      using la n two_power_nat_add [of "la - 1" "1 - e0"] by (simp add: e0_def)
    have "2 ^ nat (la - 1) * 2 ^ nat (1 - e0) \<le> a * (2::int) ^ nat (1 - e0)"
      using A(1) by (intro mult_right_mono) simp_all
    with eq B(2) show ?thesis using False by simp
  qed
  show ?thesis
  proof (cases ?test)
    case True
    then have "e = e0" using e by simp
    with True upper0 show ?thesis by simp
  next
    case False
    then have e1: "e = e0 - 1" using e by simp
    from False have "if 0 \<le> e0 then a < b * 2 ^ nat e0 else a * 2 ^ nat (- e0) < b"
      by (auto split: if_splits)
    with lower1 show ?thesis unfolding e1 by (cases "e0 = 0") simp_all
  qed
qed









subsection \<open>Months and amounts\<close>














end
